theory Spec2Isabelle
  imports Complex_Main "HOL-Library.Char_ord" "HOL-Library.List_Lexorder"
begin

section \<open>The match loop of \<open>fuzzy_matcher.py\<close>\<close>

text \<open>
  The script reads two columns of a table, and for every item of the main column scans
  the distinct items of the target column with one of four scoring functions of the
  \<open>fuzzywuzzy\<close> package (lines 71 to 100). The package is imported, not part of the
  file, so the four functions are a parameter of the model: a record \<open>fuzz\<close> holding
  one function per name the script calls. Python integers are \<open>int\<close>, Python strings
  are \<open>string\<close>.
\<close>

datatype match_method = Ratio | Partial_Ratio | Token_Sort_Ratio | Token_Set_Ratio

record fuzz =
  ratio :: "string \<Rightarrow> string \<Rightarrow> int"
  partial_ratio :: "string \<Rightarrow> string \<Rightarrow> int"
  token_sort_ratio :: "string \<Rightarrow> string \<Rightarrow> int"
  token_set_ratio :: "string \<Rightarrow> string \<Rightarrow> int"

text \<open>Lines 78 to 85: the \<open>if\<close>/\<open>elif\<close>/\<open>else\<close> chain on the selected method.\<close>

definition calc_score :: "fuzz \<Rightarrow> match_method \<Rightarrow> string \<Rightarrow> string \<Rightarrow> int" where
  "calc_score fz method main_item target_item =
     (if method = Ratio then ratio fz main_item target_item
      else if method = Partial_Ratio then partial_ratio fz main_item target_item
      else if method = Token_Sort_Ratio then token_sort_ratio fz main_item target_item
      else token_set_ratio fz main_item target_item)"

text \<open>
  Lines 76 to 90: the inner loop over \<open>target_items\<close>. Its state is the pair
  \<open>(best_match, best_score)\<close>; \<open>best_match\<close> is \<open>None\<close> until a score exceeds
  \<open>best_score\<close>, and the comparison is strict.
\<close>

fun scan_targets ::
  "(string \<Rightarrow> int) \<Rightarrow> string list \<Rightarrow> string option \<times> int \<Rightarrow> string option \<times> int" where
  "scan_targets sc [] (bm, bs) = (bm, bs)"
| "scan_targets sc (target_item # rest) (bm, bs) =
     (if sc target_item > bs
      then scan_targets sc rest (Some target_item, sc target_item)
      else scan_targets sc rest (bm, bs))"

definition no_match_found :: string where
  "no_match_found = ''No match found''"

text \<open>
  Line 97: \<open>best_match if best_match else "No match found"\<close>. Python takes
  \<open>None\<close> and the empty string as false.
\<close>

definition best_match_or_sentinel :: "string option \<Rightarrow> string" where
  "best_match_or_sentinel bm =
     (case bm of None \<Rightarrow> no_match_found
      | Some s \<Rightarrow> if s = [] then no_match_found else s)"

text \<open>Lines 95 to 100: the dictionary appended for one main item.\<close>

record match_result =
  main_item :: string
  best_match :: string
  confidence :: int
  match_status :: string

text \<open>Lines 72 to 100: the body of the outer loop for one main item.\<close>

definition match_item ::
  "fuzz \<Rightarrow> match_method \<Rightarrow> int \<Rightarrow> string list \<Rightarrow> string \<Rightarrow> match_result" where
  "match_item fz method threshold target_items item =
     (case scan_targets (calc_score fz method item) target_items (None, 0) of
        (bm, bs) \<Rightarrow>
          (let is_match = (bs \<ge> threshold) in
           \<lparr> main_item = item,
             best_match = best_match_or_sentinel bm,
             confidence = bs,
             match_status = (if is_match then ''Match'' else ''No Match'') \<rparr>))"

text \<open>
  Lines 65 and 71 to 100: the outer loop, with \<open>results\<close> as the accumulator that
  \<open>results.append\<close> extends. The loop has no \<open>break\<close> and no \<open>return\<close>.
\<close>

fun match_loop ::
  "fuzz \<Rightarrow> match_method \<Rightarrow> int \<Rightarrow> string list \<Rightarrow> string list \<Rightarrow> match_result list
     \<Rightarrow> match_result list" where
  "match_loop fz method threshold target_items [] results = results"
| "match_loop fz method threshold target_items (item # rest) results =
     match_loop fz method threshold target_items rest
       (results @ [match_item fz method threshold target_items item])"

definition run_fuzzy_match ::
  "fuzz \<Rightarrow> match_method \<Rightarrow> int \<Rightarrow> string list \<Rightarrow> string list \<Rightarrow> match_result list" where
  "run_fuzzy_match fz method threshold main_items target_items =
     match_loop fz method threshold target_items main_items []"

subsection \<open>Summary metrics\<close>

text \<open>
  Lines 110 and 124 to 135. The \<open>pandas\<close> package is imported, not part of the file;
  its behaviour is taken from its documentation and is an assumption of this model:
  \<open>pd.DataFrame(results)\<close> takes its columns from the keys of the dictionaries, so
  the frame of an empty list has no column at all, and the first column lookup
  (\<open>result_df['Match Status']\<close>, line 128) raises \<open>KeyError\<close> before any mean is
  taken. The source itself has no branch for an empty result list, while the display
  of the filtered table is guarded by \<open>len(display_df) > 0\<close> (line 154).
\<close>

datatype py_error = KeyError string

text \<open>
  The mean of the integer column (line 134) is a 64-bit floating-point number: the
  sum of the column divided by the number of rows. A float is modelled by the rational
  number it denotes. \<open>float64_div s n\<close> is the double nearest to \<open>s / n\<close>, with 53
  significant bits and ties to the even significand; it covers the normal range, for
  a sum below \<open>2 ^ 53\<close> in magnitude (which a float holds exactly) and \<open>n > 0\<close>.
\<close>

fun bit_length :: "nat \<Rightarrow> nat" where
  "bit_length n = (if n = 0 then 0 else Suc (bit_length (n div 2)))"

definition pow2 :: "int \<Rightarrow> rat" where
  "pow2 e = (if 0 \<le> e then 2 ^ nat e else 1 / 2 ^ nat (- e))"

definition round_half_even :: "rat \<Rightarrow> int" where
  "round_half_even q =
     (let f = \<lfloor>q\<rfloor>; r = q - of_int f
      in if r < 1 / 2 then f
         else if 1 / 2 < r then f + 1
         else if even f then f else f + 1)"

definition float64_div :: "int \<Rightarrow> int \<Rightarrow> rat" where
  "float64_div s n =
     (if s = 0 then 0
      else
        (let q = of_int \<bar>s\<bar> / of_int n;
             k = int (bit_length (nat \<bar>s\<bar>)) - int (bit_length (nat n));
             p = (if pow2 k \<le> q then k else k - 1);
             e = p - 52;
             m = round_half_even (q / pow2 e)
         in of_int (sgn s) * of_int m * pow2 e))"

record run_summary =
  total_items :: nat
  matches :: nat
  no_matches :: nat
  avg_confidence :: rat

definition column_mean :: "int list \<Rightarrow> rat" where
  "column_mean col = float64_div (fold (+) col 0) (int (length col))"

definition summary_metrics :: "match_result list \<Rightarrow> py_error + run_summary" where
  "summary_metrics results =
     (if results = [] then Inl (KeyError ''Match Status'')
      else Inr \<lparr> total_items = length results,
                 matches = length (filter (\<lambda>r. match_status r = ''Match'') results),
                 no_matches = length (filter (\<lambda>r. match_status r = ''No Match'') results),
                 avg_confidence = column_mean (map confidence results) \<rparr>)"

section \<open>The similarity scorer and the search of the specification\<close>

text \<open>
  Modelled from the spec: the four scoring functions \<open>fuzz.ratio\<close>,
  \<open>fuzz.partial_ratio\<close>, \<open>fuzz.token_sort_ratio\<close> and \<open>fuzz.token_set_ratio\<close>
  are imported from the \<open>fuzzywuzzy\<close> package and are missing from the source file. The
  definitions below follow section 4.1 of the specification: the rule for empty
  inputs, the normalization (lowercase, trim, collapse internal whitespace), and the
  four algorithms on the normalized strings. Whitespace is the ASCII whitespace,
  lowercasing acts on the letters A to Z, and the rounding left open by the
  specification is taken as round-half-up.
\<close>

definition is_space :: "char \<Rightarrow> bool" where
  "is_space c = (c \<in> set [CHR '' '', CHR 0x09, CHR 0x0A, CHR 0x0B, CHR 0x0C, CHR 0x0D])"

definition lower_char :: "char \<Rightarrow> char" where
  "lower_char c =
     (case map_of (zip ''ABCDEFGHIJKLMNOPQRSTUVWXYZ'' ''abcdefghijklmnopqrstuvwxyz'') c of
        None \<Rightarrow> c | Some d \<Rightarrow> d)"

definition lowercase :: "string \<Rightarrow> string" where
  "lowercase s = map lower_char s"

definition lstrip :: "string \<Rightarrow> string" where
  "lstrip s = dropWhile is_space s"

fun rstrip :: "string \<Rightarrow> string" where
  "rstrip [] = []"
| "rstrip (c # cs) = (if rstrip cs = [] \<and> is_space c then [] else c # rstrip cs)"

definition trim :: "string \<Rightarrow> string" where
  "trim s = rstrip (lstrip s)"

text \<open>Every run of whitespace becomes one space character.\<close>

fun collapse_spaces :: "string \<Rightarrow> string" where
  "collapse_spaces [] = []"
| "collapse_spaces [c] = [if is_space c then CHR '' '' else c]"
| "collapse_spaces (c # d # cs) =
     (if is_space c \<and> is_space d then collapse_spaces (d # cs)
      else (if is_space c then CHR '' '' else c) # collapse_spaces (d # cs))"

definition normalize :: "string \<Rightarrow> string" where
  "normalize s = collapse_spaces (trim (lowercase s))"

text \<open>
  Tokens: the maximal runs of characters that are not whitespace; \<open>cur\<close> is the token
  being read.
\<close>

fun split_from :: "string \<Rightarrow> string \<Rightarrow> string list" where
  "split_from cur [] = (if cur = [] then [] else [cur])"
| "split_from cur (c # cs) =
     (if is_space c then (if cur = [] then split_from [] cs else cur # split_from [] cs)
      else split_from (cur @ [c]) cs)"

definition tokens :: "string \<Rightarrow> string list" where
  "tokens s = split_from [] s"

fun join_spaces :: "string list \<Rightarrow> string" where
  "join_spaces [] = []"
| "join_spaces [w] = w"
| "join_spaces (w # v # ws) = w @ CHR '' '' # join_spaces (v # ws)"

text \<open>
  The edit distance with insertion and deletion at cost 1 and substitution at cost 2.
\<close>

fun weighted_distance :: "string \<Rightarrow> string \<Rightarrow> nat" where
  "weighted_distance [] ys = length ys"
| "weighted_distance (x # xs) [] = Suc (length xs)"
| "weighted_distance (x # xs) (y # ys) =
     min (min (weighted_distance xs (y # ys) + 1) (weighted_distance (x # xs) ys + 1))
         (weighted_distance xs ys + (if x = y then 0 else 2))"

text \<open>
  \<open>100 * (1 - weighted_distance / total_length)\<close>, rounded to the nearest integer
  (half up), floor at 0; two empty strings are fully similar.
\<close>

definition ratio_similarity :: "string \<Rightarrow> string \<Rightarrow> int" where
  "ratio_similarity a b =
     (let total = int (length a + length b); d = int (weighted_distance a b)
      in if total = 0 then 100
         else max 0 ((200 * (total - d) + total) div (2 * total)))"

text \<open>
  The windows of the longer string that are as long as the shorter one, at every
  offset; the best Ratio of the shorter string against a window.
\<close>

definition partial_similarity :: "string \<Rightarrow> string \<Rightarrow> int" where
  "partial_similarity a b =
     (let shorter = (if length a \<le> length b then a else b);
          longer = (if length a \<le> length b then b else a);
          n = length shorter
      in fold max
           (map (\<lambda>i. ratio_similarity shorter (take n (drop i longer)))
                [0 ..< length longer - n + 1]) 0)"

definition token_sort_similarity :: "string \<Rightarrow> string \<Rightarrow> int" where
  "token_sort_similarity a b =
     ratio_similarity (join_spaces (sort (tokens a))) (join_spaces (sort (tokens b)))"

definition token_set_similarity :: "string \<Rightarrow> string \<Rightarrow> int" where
  "token_set_similarity a b =
     (let ta = remdups (tokens a); tb = remdups (tokens b);
          inter = sort (filter (\<lambda>t. t \<in> set tb) ta);
          diff_a = sort (filter (\<lambda>t. t \<notin> set tb) ta);
          diff_b = sort (filter (\<lambda>t. t \<notin> set ta) tb);
          t0 = join_spaces inter;
          t1 = join_spaces (inter @ diff_a);
          t2 = join_spaces (inter @ diff_b)
      in max (ratio_similarity t0 t1)
             (max (ratio_similarity t0 t2) (ratio_similarity t1 t2)))"

text \<open>
  Modelled from the spec: the contract \<open>score(a, b, algorithm)\<close> of section 4.1, in
  place of the package functions the script calls. The rule for empty strings is a
  rule of the inputs themselves: 100 when both inputs are empty, 0 when one of them
  is. Otherwise the inputs are normalized and the selected algorithm scores the
  normalized strings.
\<close>

definition score :: "string \<Rightarrow> string \<Rightarrow> match_method \<Rightarrow> int" where
  "score a b algorithm =
     (if a = [] \<and> b = [] then 100
      else if a = [] \<or> b = [] then 0
      else
        (let a' = normalize a; b' = normalize b
         in case algorithm of
              Ratio \<Rightarrow> ratio_similarity a' b'
            | Partial_Ratio \<Rightarrow> partial_similarity a' b'
            | Token_Sort_Ratio \<Rightarrow> token_sort_similarity a' b'
            | Token_Set_Ratio \<Rightarrow> token_set_similarity a' b'))"

text \<open>
  Modelled from the spec: the package as section 4.1 describes it, one field for each
  function the script calls, to run the loop on concrete inputs.
\<close>

definition spec_fuzz :: fuzz where
  "spec_fuzz =
     \<lparr> ratio = (\<lambda>a b. score a b Ratio),
       partial_ratio = (\<lambda>a b. score a b Partial_Ratio),
       token_sort_ratio = (\<lambda>a b. score a b Token_Sort_Ratio),
       token_set_ratio = (\<lambda>a b. score a b Token_Set_Ratio) \<rparr>"

text \<open>
  The words of section 4.2 for the result of one scan: the maximum score over the
  pool, and the first pool item that achieves it.
\<close>

definition max_score :: "(string \<Rightarrow> int) \<Rightarrow> string list \<Rightarrow> int" where
  "max_score sc pool = Max (sc ` set pool)"

definition first_achieving :: "(string \<Rightarrow> int) \<Rightarrow> string list \<Rightarrow> string option" where
  "first_achieving sc pool = find (\<lambda>t. sc t = max_score sc pool) pool"

text \<open>
  The words of sections 4.2 and 6 for a search with a cancellation channel: the flag
  is read before each query item starts, with the number of items completed so far,
  and a raised flag ends the search with the results completed.
\<close>

fun cancellable_search ::
  "(nat \<Rightarrow> bool) \<Rightarrow> fuzz \<Rightarrow> match_method \<Rightarrow> int \<Rightarrow> string list \<Rightarrow> string list
     \<Rightarrow> match_result list \<Rightarrow> match_result list" where
  "cancellable_search cancelled fz method threshold pool [] results = results"
| "cancellable_search cancelled fz method threshold pool (q # qs) results =
     (if cancelled (length results) then results
      else cancellable_search cancelled fz method threshold pool qs
             (results @ [match_item fz method threshold pool q]))"

definition cancel_after :: "nat \<Rightarrow> nat \<Rightarrow> bool" where
  "cancel_after k completed = (k \<le> completed)"

definition never_cancelled :: "nat \<Rightarrow> bool" where
  "never_cancelled completed = False"

section \<open>Facts about the loops\<close>

lemma match_loop_append:
  "match_loop fz method threshold target_items items results =
     results @ map (match_item fz method threshold target_items) items"
  by (induction items arbitrary: results) simp_all

lemma run_fuzzy_match_map:
  "run_fuzzy_match fz method threshold main_items target_items =
     map (match_item fz method threshold target_items) main_items"
  by (simp add: run_fuzzy_match_def match_loop_append)

lemma scan_targets_score_ge: "bs \<le> snd (scan_targets sc ts (bm, bs))"
proof (induction ts arbitrary: bm bs)
  case Nil
  show ?case by simp
next
  case (Cons t ts)
  show ?case
  proof (cases "sc t > bs")
    case True
    have "sc t \<le> snd (scan_targets sc ts (Some t, sc t))" by (rule Cons.IH)
    with True show ?thesis by simp
  next
    case False
    with Cons.IH [of bs bm] show ?thesis by simp
  qed
qed

lemma scan_targets_score:
  "snd (scan_targets sc ts (bm, bs)) = Max (insert bs (sc ` set ts))"
proof (induction ts arbitrary: bm bs)
  case Nil
  show ?case by simp
next
  case (Cons t ts)
  have fin: "finite (sc ` set ts)" by simp
  show ?case
  proof (cases "sc t > bs")
    case True
    have "snd (scan_targets sc (t # ts) (bm, bs)) = Max (insert (sc t) (sc ` set ts))"
      using True Cons.IH [of "Some t" "sc t"] by simp
    also have "\<dots> = Max (insert bs (insert (sc t) (sc ` set ts)))"
    proof -
      have "sc t \<le> Max (insert (sc t) (sc ` set ts))" using fin by simp
      with True have "bs \<le> Max (insert (sc t) (sc ` set ts))" by linarith
      then show ?thesis using fin by (simp add: max_def)
    qed
    finally show ?thesis by simp
  next
    case False
    have "snd (scan_targets sc (t # ts) (bm, bs)) = Max (insert bs (sc ` set ts))"
      using False Cons.IH [of bm bs] by simp
    also have "\<dots> = Max (insert (sc t) (insert bs (sc ` set ts)))"
    proof -
      have "bs \<le> Max (insert bs (sc ` set ts))" using fin by simp
      with False have "sc t \<le> Max (insert bs (sc ` set ts))" by linarith
      then show ?thesis using fin by (simp add: max_def)
    qed
    finally show ?thesis by (simp add: insert_commute)
  qed
qed

lemma scan_targets_match:
  "scan_targets sc ts (bm, bs) = (bm', m) \<Longrightarrow>
     (m = bs \<longrightarrow> bm' = bm) \<and> (bs < m \<longrightarrow> bm' = find (\<lambda>t. sc t = m) ts)"
proof (induction ts arbitrary: bm bs)
  case Nil
  then show ?case by simp
next
  case (Cons t ts)
  show ?case
  proof (cases "sc t > bs")
    case True
    with Cons.prems have run: "scan_targets sc ts (Some t, sc t) = (bm', m)" by simp
    from scan_targets_score_ge [of "sc t" sc ts "Some t"] run have ge: "sc t \<le> m" by simp
    from Cons.IH [OF run] have
      eq: "m = sc t \<longrightarrow> bm' = Some t" and
      gt: "sc t < m \<longrightarrow> bm' = find (\<lambda>t. sc t = m) ts" by simp_all
    from True ge eq gt show ?thesis by (cases "sc t = m") auto
  next
    case False
    with Cons.prems have run: "scan_targets sc ts (bm, bs) = (bm', m)" by simp
    from Cons.IH [OF run] False show ?thesis by auto
  qed
qed

lemma match_item_fields:
  "main_item (match_item fz method threshold target_items item) = item"
  "confidence (match_item fz method threshold target_items item) =
     snd (scan_targets (calc_score fz method item) target_items (None, 0))"
  "best_match (match_item fz method threshold target_items item) =
     best_match_or_sentinel (fst (scan_targets (calc_score fz method item) target_items (None, 0)))"
  "match_status (match_item fz method threshold target_items item) =
     (if threshold \<le> snd (scan_targets (calc_score fz method item) target_items (None, 0))
      then ''Match'' else ''No Match'')"
  by (simp_all add: match_item_def split: prod.splits)

lemma confidence_zero_sentinel:
  "confidence (match_item fz method threshold target_items item) = 0 \<Longrightarrow>
     best_match (match_item fz method threshold target_items item) = no_match_found"
proof -
  assume z: "confidence (match_item fz method threshold target_items item) = 0"
  let ?r = "scan_targets (calc_score fz method item) target_items (None, 0)"
  have "?r = (fst ?r, snd ?r)" by simp
  from scan_targets_match [OF this] z have "fst ?r = None"
    by (simp add: match_item_fields)
  then show ?thesis by (simp add: match_item_fields best_match_or_sentinel_def)
qed

lemma max_score_nonneg:
  assumes "pool \<noteq> []" and "\<forall>t\<in>set pool. 0 \<le> sc t"
  shows "Max (insert 0 (sc ` set pool)) = max_score sc pool"
proof -
  from assms(1) obtain t where t: "t \<in> set pool" by (cases pool) auto
  have "sc t \<le> Max (sc ` set pool)" using t by simp
  moreover have "0 \<le> sc t" using assms(2) t by simp
  ultimately have "0 \<le> Max (sc ` set pool)" by linarith
  moreover have "sc ` set pool \<noteq> {}" using t by auto
  ultimately show ?thesis by (simp add: max_score_def max_def)
qed

lemma first_achieving_Some:
  assumes "pool \<noteq> []"
  shows "\<exists>t. first_achieving sc pool = Some t"
proof -
  have "Max (sc ` set pool) \<in> sc ` set pool" using assms by (intro Max_in) auto
  then obtain t where "t \<in> set pool" "sc t = max_score sc pool"
    by (auto simp: max_score_def)
  then have "find (\<lambda>t. sc t = max_score sc pool) pool \<noteq> None"
    by (auto simp: find_None_iff)
  then show ?thesis by (auto simp: first_achieving_def)
qed

lemma match_item_best:
  assumes ne: "target_items \<noteq> []"
    and nonneg: "\<forall>t\<in>set target_items. 0 \<le> calc_score fz method item t"
  shows "confidence (match_item fz method threshold target_items item) =
           max_score (calc_score fz method item) target_items"
    and "0 < max_score (calc_score fz method item) target_items \<Longrightarrow>
           best_match (match_item fz method threshold target_items item) =
             best_match_or_sentinel (first_achieving (calc_score fz method item) target_items)"
    and "max_score (calc_score fz method item) target_items = 0 \<Longrightarrow>
           best_match (match_item fz method threshold target_items item) = no_match_found"
proof -
  let ?sc = "calc_score fz method item"
  let ?r = "scan_targets ?sc target_items (None, 0)"
  have conf: "snd ?r = max_score ?sc target_items"
    using scan_targets_score [of ?sc target_items None 0] max_score_nonneg [OF ne nonneg]
    by simp
  show c: "confidence (match_item fz method threshold target_items item) =
           max_score ?sc target_items"
    by (simp add: match_item_fields conf)
  have pair: "?r = (fst ?r, snd ?r)" by simp
  note m = scan_targets_match [OF pair]
  show "best_match (match_item fz method threshold target_items item) =
          best_match_or_sentinel (first_achieving ?sc target_items)"
    if "0 < max_score ?sc target_items"
    using m that conf by (simp add: match_item_fields first_achieving_def)
  show "best_match (match_item fz method threshold target_items item) = no_match_found"
    if "max_score ?sc target_items = 0"
    using that c by (simp add: confidence_zero_sentinel)
qed

text \<open>
  The mean of the scores 100, 100 and 0 is the double nearest to \<open>200 / 3\<close>, printed
  as 66.66666666666667, and not the rational \<open>200 / 3\<close> itself.
\<close>

lemma column_mean_is_rounded:
  "column_mean [100, 100, 0] = 4691249611844267 / 70368744177664
   \<and> column_mean [100, 100, 0] \<noteq> 200 / 3
   \<and> column_mean [100, 67] = 167 / 2"
  by code_simp

subsection \<open>Facts about the scorer of the specification\<close>

lemma weighted_distance_Nil2: "weighted_distance xs [] = length xs"
  by (cases xs) simp_all

lemma weighted_distance_sym: "weighted_distance a b = weighted_distance b a"
proof (induction a b rule: weighted_distance.induct)
  case (1 ys)
  show ?case by (simp add: weighted_distance_Nil2)
next
  case (2 x xs)
  show ?case by simp
next
  case (3 x xs y ys)
  then show ?case by (simp add: min.commute eq_commute [of x y])
qed

lemma ratio_similarity_sym: "ratio_similarity a b = ratio_similarity b a"
  by (simp add: ratio_similarity_def weighted_distance_sym [of a b] add.commute)

lemma is_space_lower_char: "is_space (lower_char c) = is_space c"
  by (simp add: lower_char_def is_space_def)

lemma lower_char_idem: "lower_char (lower_char c) = lower_char c"
  by (simp add: lower_char_def)

lemma lower_char_space: "lower_char (CHR '' '') = CHR '' ''"
  by (simp add: lower_char_def)

lemma is_space_space: "is_space (CHR '' '')"
  by (simp add: is_space_def)

lemma lowercase_idem: "lowercase (lowercase s) = lowercase s"
  by (simp add: lowercase_def lower_char_idem)

lemma lowercase_lstrip: "lowercase (lstrip s) = lstrip (lowercase s)"
  by (induction s) (simp_all add: lowercase_def lstrip_def is_space_lower_char)

lemma lowercase_rstrip: "lowercase (rstrip s) = rstrip (lowercase s)"
proof (induction s)
  case Nil
  show ?case by (simp add: lowercase_def)
next
  case (Cons c cs)
  from Cons.IH have "map lower_char (rstrip cs) = rstrip (map lower_char cs)"
    by (simp add: lowercase_def)
  then have "(rstrip (map lower_char cs) = []) = (rstrip cs = [])"
    by (metis map_is_Nil_conv)
  with Cons.IH show ?case by (simp add: lowercase_def is_space_lower_char)
qed

lemma lowercase_trim: "lowercase (trim s) = trim (lowercase s)"
  by (simp add: trim_def lowercase_rstrip lowercase_lstrip)

lemma lowercase_collapse: "lowercase (collapse_spaces s) = collapse_spaces (lowercase s)"
  by (induction s rule: collapse_spaces.induct)
     (simp_all add: lowercase_def is_space_lower_char lower_char_space)

lemma rstrip_Nil_iff: "(rstrip s = []) = (\<forall>c\<in>set s. is_space c)"
  by (induction s) auto

lemma lstrip_all_space: "(\<forall>c\<in>set (lstrip s). is_space c) = (\<forall>c\<in>set s. is_space c)"
  by (induction s) (auto simp: lstrip_def)

lemma trim_Nil_iff: "(trim s = []) = (\<forall>c\<in>set s. is_space c)"
  by (simp add: trim_def rstrip_Nil_iff lstrip_all_space)

lemma collapse_Nil_iff: "(collapse_spaces s = []) = (s = [])"
  by (induction s rule: collapse_spaces.induct) auto

lemma normalize_Nil_iff: "(normalize s = []) = (\<forall>c\<in>set s. is_space c)"
  by (simp add: normalize_def collapse_Nil_iff trim_Nil_iff lowercase_def is_space_lower_char)

lemma rstrip_idem: "rstrip (rstrip s) = rstrip s"
  by (induction s) (auto simp: rstrip_Nil_iff)

lemma lstrip_rstrip: "lstrip (rstrip (lstrip s)) = rstrip (lstrip s)"
proof (cases "lstrip s")
  case Nil
  then show ?thesis by (simp add: lstrip_def del: dropWhile_eq_Nil_conv)
next
  case (Cons c cs)
  then have "\<not> is_space c"
    unfolding lstrip_def by (metis hd_dropWhile list.sel(1) list.distinct(1))
  then show ?thesis using Cons by (simp add: lstrip_def)
qed

lemma trim_idem: "trim (trim s) = trim s"
  by (simp add: trim_def lstrip_rstrip rstrip_idem)

lemma collapse_head:
  "\<exists>e r. collapse_spaces (d # cs) = e # r \<and> is_space e = is_space d"
proof (induction cs arbitrary: d)
  case Nil
  show ?case by (simp add: is_space_space)
next
  case (Cons c cs)
  from Cons [of c] show ?case by (auto simp: is_space_space)
qed

lemma collapse_set: "x \<in> set (collapse_spaces s) \<Longrightarrow> x \<in> set s \<or> x = CHR '' ''"
proof (induction s rule: collapse_spaces.induct)
  case 1
  then show ?case by simp
next
  case (2 c)
  then show ?case by (simp split: if_splits)
next
  case (3 c d cs)
  show ?case
  proof (cases "is_space c \<and> is_space d")
    case True
    with 3 show ?thesis by simp
  next
    case False
    with 3 show ?thesis by (cases "is_space c") auto
  qed
qed

lemma collapse_all_space:
  "\<forall>c\<in>set s. is_space c \<Longrightarrow> \<forall>c\<in>set (collapse_spaces s). is_space c"
  using collapse_set is_space_space by blast

lemma collapse_idem: "collapse_spaces (collapse_spaces s) = collapse_spaces s"
proof (induction s rule: collapse_spaces.induct)
  case 1
  show ?case by simp
next
  case (2 c)
  show ?case by (simp add: is_space_space)
next
  case (3 c d cs)
  obtain e r where e: "collapse_spaces (d # cs) = e # r" "is_space e = is_space d"
    using collapse_head by blast
  show ?case
  proof (cases "is_space c \<and> is_space d")
    case True
    with 3 show ?thesis by simp
  next
    case False
    with 3 have IH: "collapse_spaces (collapse_spaces (d # cs)) = collapse_spaces (d # cs)"
      by simp
    from False e IH show ?thesis by (auto simp: is_space_space)
  qed
qed

lemma lstrip_collapse: "lstrip (collapse_spaces s) = collapse_spaces (lstrip s)"
proof (induction s rule: collapse_spaces.induct)
  case 1
  show ?case by (simp add: lstrip_def)
next
  case (2 c)
  show ?case by (simp add: lstrip_def is_space_space)
next
  case (3 c d cs)
  then show ?case by (auto simp: lstrip_def is_space_space)
qed

lemma rstrip_collapse: "rstrip (collapse_spaces s) = collapse_spaces (rstrip s)"
proof (induction s rule: collapse_spaces.induct)
  case 1
  show ?case by simp
next
  case (2 c)
  show ?case by (simp add: is_space_space)
next
  case (3 c d cs)
  show ?case
  proof (cases "rstrip (d # cs) = []")
    case True
    then have all: "\<forall>c\<in>set (d # cs). is_space c" by (simp only: rstrip_Nil_iff)
    from collapse_all_space [OF all]
    have r: "rstrip (collapse_spaces (d # cs)) = []" by (simp only: rstrip_Nil_iff)
    from all have d: "is_space d" by simp
    show ?thesis
    proof (cases "is_space c")
      case True
      with d r \<open>rstrip (d # cs) = []\<close> show ?thesis by (simp add: is_space_space)
    next
      case False
      with d r \<open>rstrip (d # cs) = []\<close> show ?thesis by simp
    qed
  next
    case False
    then obtain r where r: "rstrip (d # cs) = d # r" by (auto split: if_splits)
    have IH: "rstrip (collapse_spaces (d # cs)) = collapse_spaces (d # r)"
      using 3 r by (cases "is_space c \<and> is_space d") auto
    have ne: "collapse_spaces (d # r) \<noteq> []" by (simp add: collapse_Nil_iff)
    show ?thesis
    proof (cases "is_space c \<and> is_space d")
      case True
      with IH r show ?thesis by simp
    next
      case False
      with IH r ne show ?thesis by auto
    qed
  qed
qed

lemma trim_collapse: "trim (collapse_spaces s) = collapse_spaces (trim s)"
  by (simp add: trim_def lstrip_collapse rstrip_collapse)

lemma normalize_lowercase: "normalize (lowercase s) = normalize s"
  by (simp add: normalize_def lowercase_idem)

lemma normalize_trim: "normalize (trim s) = normalize s"
  by (simp add: normalize_def lowercase_trim trim_idem)

lemma normalize_collapse: "normalize (collapse_spaces s) = normalize s"
  by (simp add: normalize_def lowercase_collapse trim_collapse collapse_idem)

lemma normalize_idem: "normalize (normalize s) = normalize s"
  by (simp add: normalize_def lowercase_collapse lowercase_trim lowercase_idem
        trim_collapse trim_idem collapse_idem)

text \<open>
  Whatever the scorer is, invariance under trimming and the value 0 against the empty
  string for every non-empty first input exclude each other: the string of one space
  is not empty and trims to the empty string.
\<close>

lemma trim_invariance_excludes_zero_rule:
  "\<not> ((\<forall>a b. sc (trim a) b = sc a b) \<and> (\<forall>a. a \<noteq> [] \<longrightarrow> sc a [] = (0::int))
        \<and> sc [] [] = 100)"
proof
  assume h: "(\<forall>a b. sc (trim a) b = sc a b) \<and> (\<forall>a. a \<noteq> [] \<longrightarrow> sc a [] = (0::int))
        \<and> sc [] [] = 100"
  have t: "trim '' '' = []" by (simp add: trim_def lstrip_def is_space_def)
  from h have "sc (trim '' '') [] = sc '' '' []" by blast
  moreover from h have "sc '' '' [] = 0" by simp
  moreover from h have "sc [] [] = 100" by simp
  ultimately show False using t by simp
qed

section \<open>The claims about the match loop\<close>

text \<open>
  Claim C1, as amended. For every query item and every non-empty pool whose scores
  are not negative, the reported score is the maximum of the scores over the pool.
  When that maximum is positive, the reported best match is the first pool item that
  achieves it (a non-empty string is reported as it is), so a later item with an equal
  score never replaces it. When the maximum is 0, no pool item is reported: the best
  match is the sentinel.
\<close>

theorem best_match_is_first_maximum:
  assumes "i < length main_items"
    and "target_items \<noteq> []"
    and "\<forall>t\<in>set target_items. 0 \<le> calc_score fz method (main_items ! i) t"
  shows "confidence (run_fuzzy_match fz method threshold main_items target_items ! i) =
           max_score (calc_score fz method (main_items ! i)) target_items
       \<and> (0 < max_score (calc_score fz method (main_items ! i)) target_items \<longrightarrow>
            (\<exists>t. first_achieving (calc_score fz method (main_items ! i)) target_items = Some t
               \<and> (t \<noteq> [] \<longrightarrow>
                    best_match (run_fuzzy_match fz method threshold main_items target_items ! i) = t)))
       \<and> (max_score (calc_score fz method (main_items ! i)) target_items = 0 \<longrightarrow>
            best_match (run_fuzzy_match fz method threshold main_items target_items ! i) =
              no_match_found)"
proof -
  let ?sc = "calc_score fz method (main_items ! i)"
  have r: "run_fuzzy_match fz method threshold main_items target_items ! i =
             match_item fz method threshold target_items (main_items ! i)"
    using assms(1) by (simp add: run_fuzzy_match_map)
  note best = match_item_best [OF assms(2) assms(3), of threshold]
  obtain t where t: "first_achieving ?sc target_items = Some t"
    using first_achieving_Some [OF assms(2)] by blast
  have "t \<noteq> [] \<longrightarrow> best_match_or_sentinel (Some t) = t"
    by (simp add: best_match_or_sentinel_def)
  with best t r show ?thesis by simp
qed

theorem best_match_is_first_maximum_witness:
  "(1::nat) < length [''ab'', ''a''] \<and> [''b'', ''ab'', ''AB''] \<noteq> []
   \<and> 0 \<le> calc_score spec_fuzz Ratio ''a'' ''b''
   \<and> 0 \<le> calc_score spec_fuzz Ratio ''a'' ''ab''
   \<and> 0 \<le> calc_score spec_fuzz Ratio ''a'' ''AB''
   \<and> max_score (calc_score spec_fuzz Ratio ''a'') [''b'', ''ab'', ''AB''] = 67
   \<and> first_achieving (calc_score spec_fuzz Ratio ''a'') [''b'', ''ab'', ''AB''] = Some ''ab''
   \<and> confidence (run_fuzzy_match spec_fuzz Ratio 80 [''ab'', ''a''] [''b'', ''ab'', ''AB''] ! 1) = 67
   \<and> best_match (run_fuzzy_match spec_fuzz Ratio 80 [''ab'', ''a''] [''b'', ''ab'', ''AB''] ! 1) = ''ab''"
proof -
  have len: "(1::nat) < length [''ab'', ''a'']" by simp
  have ne: "[''b'', ''ab'', ''AB''] \<noteq> ([]::string list)" by simp
  have s1: "calc_score spec_fuzz Ratio ''a'' ''b'' = 0" by code_simp
  have s2: "calc_score spec_fuzz Ratio ''a'' ''ab'' = 67" by code_simp
  have s3: "calc_score spec_fuzz Ratio ''a'' ''AB'' = 67" by code_simp
  have nonneg: "\<forall>t\<in>set [''b'', ''ab'', ''AB'']. 0 \<le> calc_score spec_fuzz Ratio ([''ab'', ''a''] ! 1) t"
    using s1 s2 s3 by simp
  have m: "max_score (calc_score spec_fuzz Ratio ''a'') [''b'', ''ab'', ''AB''] = 67"
    using s1 s2 s3 by (simp add: max_score_def)
  have f: "first_achieving (calc_score spec_fuzz Ratio ''a'') [''b'', ''ab'', ''AB''] = Some ''ab''"
    using s1 s2 s3 m by (simp add: first_achieving_def)
  from best_match_is_first_maximum [OF len ne nonneg, of 80] m f s1 s2 s3
  show ?thesis by simp
qed

text \<open>
  Claim C1 as stated fails where every score is 0: for the query \<open>a\<close> and the pool
  \<open>[b]\<close> the maximum 0 is achieved by the first pool item \<open>b\<close>, and the loop reports
  the sentinel, not \<open>b\<close>.
\<close>

theorem best_match_zero_counterexample:
  "max_score (calc_score spec_fuzz Ratio ''a'') [''b''] = 0
   \<and> first_achieving (calc_score spec_fuzz Ratio ''a'') [''b''] = Some ''b''
   \<and> best_match (run_fuzzy_match spec_fuzz Ratio 80 [''a''] [''b''] ! 0) = ''No match found''"
  by code_simp

text \<open>
  Claim C2, as amended. If the target pool is empty, every MatchResult has the
  sentinel as best match and score 0, for every threshold; its status is
  \<open>No Match\<close> exactly when the threshold is positive, and \<open>Match\<close> at threshold 0.
\<close>

theorem empty_pool_results:
  "\<forall>r\<in>set (run_fuzzy_match fz method threshold main_items []).
     best_match r = no_match_found \<and> confidence r = 0
     \<and> (match_status r = ''No Match'') = (0 < threshold)
     \<and> (match_status r = ''Match'') = (threshold \<le> 0)"
  by (auto simp: run_fuzzy_match_map match_item_def best_match_or_sentinel_def)

theorem empty_pool_results_witness:
  "\<lparr>main_item = ''a'', best_match = ''No match found'', confidence = 0,
      match_status = ''No Match''\<rparr> \<in> set (run_fuzzy_match spec_fuzz Ratio 80 [''a''] [])
   \<and> best_match (run_fuzzy_match spec_fuzz Ratio 80 [''a''] [] ! 0) = no_match_found
   \<and> confidence (run_fuzzy_match spec_fuzz Ratio 80 [''a''] [] ! 0) = 0
   \<and> match_status (run_fuzzy_match spec_fuzz Ratio 80 [''a''] [] ! 0) = ''No Match''
   \<and> (0::int) < 80"
proof -
  have "run_fuzzy_match spec_fuzz Ratio 80 [''a''] [] =
          [\<lparr>main_item = ''a'', best_match = ''No match found'', confidence = 0,
             match_status = ''No Match''\<rparr>]"
    by code_simp
  with empty_pool_results [of spec_fuzz Ratio 80 "[''a'']"] show ?thesis by simp
qed

text \<open>
  Claim C2 as stated fails at threshold 0: with an empty pool the score 0 reaches the
  threshold, and the status is \<open>Match\<close>.
\<close>

theorem empty_pool_threshold_zero_counterexample:
  "run_fuzzy_match spec_fuzz Ratio 0 [''a''] [] =
     [\<lparr>main_item = ''a'', best_match = ''No match found'', confidence = 0,
        match_status = ''Match''\<rparr>]"
  by code_simp

text \<open>
  Claim C3. For every produced MatchResult and every threshold (in particular every
  threshold from 0 to 100), the status is \<open>Match\<close> if and only if the score of the
  result is greater than or equal to the threshold; otherwise it is \<open>No Match\<close>.
\<close>

theorem status_match_iff_threshold:
  "\<forall>r\<in>set (run_fuzzy_match fz method threshold main_items target_items).
     (match_status r = ''Match'') = (threshold \<le> confidence r)
     \<and> (match_status r = ''No Match'') = (confidence r < threshold)"
  by (auto simp: run_fuzzy_match_map match_item_fields)

theorem status_match_iff_threshold_witness:
  "\<lparr>main_item = ''a'', best_match = ''ab'', confidence = 67, match_status = ''No Match''\<rparr>
     \<in> set (run_fuzzy_match spec_fuzz Ratio 80 [''ab'', ''a''] [''b'', ''ab'', ''AB''])
   \<and> match_status (run_fuzzy_match spec_fuzz Ratio 80 [''ab'', ''a''] [''b'', ''ab'', ''AB''] ! 0)
        = ''Match''
   \<and> 80 \<le> confidence (run_fuzzy_match spec_fuzz Ratio 80 [''ab'', ''a''] [''b'', ''ab'', ''AB''] ! 0)
   \<and> match_status (run_fuzzy_match spec_fuzz Ratio 80 [''ab'', ''a''] [''b'', ''ab'', ''AB''] ! 1)
        = ''No Match''
   \<and> confidence (run_fuzzy_match spec_fuzz Ratio 80 [''ab'', ''a''] [''b'', ''ab'', ''AB''] ! 1) < 80"
proof -
  have "run_fuzzy_match spec_fuzz Ratio 80 [''ab'', ''a''] [''b'', ''ab'', ''AB''] =
    [\<lparr>main_item = ''ab'', best_match = ''ab'', confidence = 100, match_status = ''Match''\<rparr>,
     \<lparr>main_item = ''a'', best_match = ''ab'', confidence = 67, match_status = ''No Match''\<rparr>]"
    by code_simp
  with status_match_iff_threshold
         [of spec_fuzz Ratio 80 "[''ab'', ''a'']" "[''b'', ''ab'', ''AB'']"]
  show ?thesis by simp
qed

text \<open>
  Claim C4. For every query sequence, with or without duplicates, and every pool,
  empty or not, the output has as many MatchResults as the query sequence has items,
  and the i-th MatchResult is the result of the loop body for the i-th query item,
  with that item in its \<open>Main Item\<close> field.
\<close>

theorem one_result_per_query_in_order:
  "length (run_fuzzy_match fz method threshold main_items target_items) = length main_items
   \<and> (\<forall>i<length main_items.
         run_fuzzy_match fz method threshold main_items target_items ! i =
           match_item fz method threshold target_items (main_items ! i)
         \<and> main_item (run_fuzzy_match fz method threshold main_items target_items ! i) =
             main_items ! i)"
  by (simp add: run_fuzzy_match_map match_item_fields)

theorem one_result_per_query_in_order_witness:
  "length (run_fuzzy_match spec_fuzz Ratio 80 [''a'', ''b'', ''a''] []) = 3
   \<and> (2::nat) < length [''a'', ''b'', ''a'']
   \<and> main_item (run_fuzzy_match spec_fuzz Ratio 80 [''a'', ''b'', ''a''] [] ! 2) = ''a''"
proof -
  note run = one_result_per_query_in_order [of spec_fuzz Ratio 80 "[''a'', ''b'', ''a'']" "[]"]
  have len: "(2::nat) < length [''a'', ''b'', ''a'']" by simp
  note at2 = run [THEN conjunct2, rule_format, OF len]
  from run [THEN conjunct1] at2 [THEN conjunct2] len
  show ?thesis by simp
qed

text \<open>
  Claim C5. The mean score of the summary is to be the arithmetic mean of the scores
  of all produced MatchResults, and 0 for an empty query sequence. The code does not
  meet the second part: for an empty query sequence the loop stores a result frame
  without columns, and the summary stops with a key error at the first column lookup,
  before any mean is taken.
\<close>

theorem summary_of_empty_run_is_key_error:
  "run_fuzzy_match spec_fuzz Ratio 80 [] [''a''] = []
   \<and> summary_metrics (run_fuzzy_match spec_fuzz Ratio 80 [] [''a'']) =
       Inl (KeyError ''Match Status'')"
  by code_simp

text \<open>
  Claim C9, as amended. The match loop reads no cancellation signal: it returns what
  the search of the specification returns when cancellation is never signalled, one
  MatchResult for every query item, and never a partial result set.
\<close>

theorem run_is_search_never_cancelled:
  "run_fuzzy_match fz method threshold main_items target_items =
     cancellable_search never_cancelled fz method threshold target_items main_items []
   \<and> length (run_fuzzy_match fz method threshold main_items target_items) = length main_items"
proof -
  have "cancellable_search never_cancelled fz method threshold target_items items results =
          match_loop fz method threshold target_items items results" for items results
    by (induction items arbitrary: results) (simp_all add: never_cancelled_def)
  then show ?thesis by (simp add: run_fuzzy_match_def match_loop_append)
qed

text \<open>
  Claim C9 as stated fails: with two query items and cancellation signalled once the
  first item is complete, the search of the specification returns one MatchResult,
  and the loop, which has no such signal, returns two.
\<close>

theorem cancellation_counterexample:
  "length (cancellable_search (cancel_after 1) spec_fuzz Ratio 80 [''a''] [''a'', ''b''] []) = 1
   \<and> length (run_fuzzy_match spec_fuzz Ratio 80 [''a'', ''b''] [''a'']) = 2
   \<and> run_fuzzy_match spec_fuzz Ratio 80 [''a'', ''b''] [''a''] \<noteq>
       cancellable_search (cancel_after 1) spec_fuzz Ratio 80 [''a''] [''a'', ''b''] []"
  by code_simp

text \<open>
  Claim C10. For every query item whose score against every item of a non-empty pool
  is 0, the produced MatchResult has the sentinel as best match, with score 0; and
  whatever the scores are, a produced MatchResult with score 0 has the sentinel as
  best match, so no pool item is reported with score 0.
\<close>

theorem zero_scores_report_sentinel:
  "(i < length main_items \<and> target_items \<noteq> []
      \<and> (\<forall>t\<in>set target_items. calc_score fz method (main_items ! i) t = 0) \<longrightarrow>
        best_match (run_fuzzy_match fz method threshold main_items target_items ! i) =
          no_match_found
        \<and> confidence (run_fuzzy_match fz method threshold main_items target_items ! i) = 0)
   \<and> (\<forall>r\<in>set (run_fuzzy_match fz method threshold main_items target_items).
         confidence r = 0 \<longrightarrow> best_match r = no_match_found)"
proof (intro conjI impI ballI)
  assume h: "i < length main_items \<and> target_items \<noteq> []
      \<and> (\<forall>t\<in>set target_items. calc_score fz method (main_items ! i) t = 0)"
  let ?sc = "calc_score fz method (main_items ! i)"
  from h have i: "i < length main_items" and ne: "target_items \<noteq> []"
    and z: "\<forall>t\<in>set target_items. ?sc t = 0" by simp_all
  from z have nonneg: "\<forall>t\<in>set target_items. 0 \<le> ?sc t" by simp
  from ne z have img: "?sc ` set target_items = {0}" by (cases target_items) auto
  have m: "max_score ?sc target_items = 0" by (simp add: max_score_def img)
  have r: "run_fuzzy_match fz method threshold main_items target_items ! i =
             match_item fz method threshold target_items (main_items ! i)"
    using i by (simp add: run_fuzzy_match_map)
  from match_item_best(1) [OF ne nonneg, of threshold] m r
  show "confidence (run_fuzzy_match fz method threshold main_items target_items ! i) = 0"
    by simp
  from match_item_best(3) [OF ne nonneg m, of threshold] r
  show "best_match (run_fuzzy_match fz method threshold main_items target_items ! i) =
          no_match_found"
    by simp
next
  fix r
  assume "r \<in> set (run_fuzzy_match fz method threshold main_items target_items)"
    and "confidence r = 0"
  then show "best_match r = no_match_found"
    by (auto simp: run_fuzzy_match_map confidence_zero_sentinel)
qed

theorem zero_scores_report_sentinel_witness:
  "(0::nat) < length [''a''] \<and> [''b'', ''c''] \<noteq> []
   \<and> calc_score spec_fuzz Ratio ''a'' ''b'' = 0
   \<and> calc_score spec_fuzz Ratio ''a'' ''c'' = 0
   \<and> best_match (run_fuzzy_match spec_fuzz Ratio 80 [''a''] [''b'', ''c''] ! 0) = ''No match found''
   \<and> confidence (run_fuzzy_match spec_fuzz Ratio 80 [''a''] [''b'', ''c''] ! 0) = 0
   \<and> run_fuzzy_match spec_fuzz Ratio 80 [''a''] [''b'', ''c''] ! 0
        \<in> set (run_fuzzy_match spec_fuzz Ratio 80 [''a''] [''b'', ''c''])"
proof -
  have s1: "calc_score spec_fuzz Ratio ''a'' ''b'' = 0" by code_simp
  have s2: "calc_score spec_fuzz Ratio ''a'' ''c'' = 0" by code_simp
  have h: "(0::nat) < length [''a''] \<and> [''b'', ''c''] \<noteq> []
      \<and> (\<forall>t\<in>set [''b'', ''c'']. calc_score spec_fuzz Ratio ([''a''] ! 0) t = 0)"
    using s1 s2 by simp
  note inst = zero_scores_report_sentinel [of 0 "[''a'']" "[''b'', ''c'']" spec_fuzz Ratio 80]
  note first = inst [THEN conjunct1, rule_format, OF h]
  have mem: "run_fuzzy_match spec_fuzz Ratio 80 [''a''] [''b'', ''c''] ! 0
        \<in> set (run_fuzzy_match spec_fuzz Ratio 80 [''a''] [''b'', ''c''])"
    by (simp add: run_fuzzy_match_map)
  from first s1 s2 mem show ?thesis by (simp add: no_match_found_def)
qed

section \<open>The claims about the similarity scorer\<close>

text \<open>
  Claim C6, as amended. For every pair of strings and each of the four algorithms,
  the score of the specification does not change when either input is lowercased or
  has its runs of whitespace collapsed. It does not change when an input is trimmed
  of leading and trailing whitespace, or when both inputs are replaced by their normal
  forms, provided each input concerned is empty or has a character that is not
  whitespace: then trimming does not turn a non-empty input into the empty string.
\<close>

theorem score_invariant_under_normalization:
  "score (lowercase a) b algorithm = score a b algorithm
   \<and> score (collapse_spaces a) b algorithm = score a b algorithm
   \<and> score a (lowercase b) algorithm = score a b algorithm
   \<and> score a (collapse_spaces b) algorithm = score a b algorithm
   \<and> (a = [] \<or> (\<exists>c\<in>set a. \<not> is_space c) \<longrightarrow>
         score (trim a) b algorithm = score a b algorithm)
   \<and> (b = [] \<or> (\<exists>c\<in>set b. \<not> is_space c) \<longrightarrow>
         score a (trim b) algorithm = score a b algorithm)
   \<and> ((a = [] \<or> (\<exists>c\<in>set a. \<not> is_space c)) \<and> (b = [] \<or> (\<exists>c\<in>set b. \<not> is_space c)) \<longrightarrow>
         score (normalize a) (normalize b) algorithm = score a b algorithm)"
proof -
  have low: "(lowercase s = []) = (s = [])" for s by (simp add: lowercase_def)
  have tr: "(trim s = []) = (s = [])" if "s = [] \<or> (\<exists>c\<in>set s. \<not> is_space c)" for s
    using that by (auto simp: trim_Nil_iff)
  have nm: "(normalize s = []) = (s = [])" if "s = [] \<or> (\<exists>c\<in>set s. \<not> is_space c)" for s
    using that by (auto simp: normalize_Nil_iff)
  have t0: "trim [] = []" by (simp add: trim_def lstrip_def)
  have n0: "normalize [] = []" by (simp add: normalize_Nil_iff)
  have 1: "score (lowercase a) b algorithm = score a b algorithm"
    by (simp add: score_def low normalize_lowercase)
  have 2: "score (collapse_spaces a) b algorithm = score a b algorithm"
    by (simp add: score_def collapse_Nil_iff normalize_collapse)
  have 3: "score a (lowercase b) algorithm = score a b algorithm"
    by (simp add: score_def low normalize_lowercase)
  have 4: "score a (collapse_spaces b) algorithm = score a b algorithm"
    by (simp add: score_def collapse_Nil_iff normalize_collapse)
  have 5: "score (trim a) b algorithm = score a b algorithm"
    if "a = [] \<or> (\<exists>c\<in>set a. \<not> is_space c)"
    by (simp add: score_def tr [OF that] normalize_trim t0)
  have 6: "score a (trim b) algorithm = score a b algorithm"
    if "b = [] \<or> (\<exists>c\<in>set b. \<not> is_space c)"
    by (simp add: score_def tr [OF that] normalize_trim t0)
  have 7: "score (normalize a) (normalize b) algorithm = score a b algorithm"
    if "a = [] \<or> (\<exists>c\<in>set a. \<not> is_space c)" and "b = [] \<or> (\<exists>c\<in>set b. \<not> is_space c)"
    by (simp add: score_def nm [OF that(1)] nm [OF that(2)] normalize_idem n0)
  from 1 2 3 4 5 6 7 show ?thesis by blast
qed

theorem score_invariant_under_normalization_witness:
  "CHR ''b'' \<in> set '' Ab  C '' \<and> \<not> is_space (CHR ''b'')
   \<and> score (trim '' Ab  C '') ''ab c'' Ratio = score '' Ab  C '' ''ab c'' Ratio
   \<and> score '' Ab  C '' ''ab c'' Ratio = 100
   \<and> score ''Ab'' ''ab c'' Ratio = 67"
proof -
  have b: "\<not> is_space (CHR ''b'')" by (simp add: is_space_def)
  have ex: "'' Ab  C '' = [] \<or> (\<exists>c\<in>set '' Ab  C ''. \<not> is_space c)" using b by simp
  have v: "score '' Ab  C '' ''ab c'' Ratio = 100" by code_simp
  have w: "score ''Ab'' ''ab c'' Ratio = 67" by code_simp
  note inst = score_invariant_under_normalization [of "'' Ab  C ''" "''ab c''" Ratio]
  note trimmed = inst [THEN conjunct2, THEN conjunct2, THEN conjunct2, THEN conjunct2,
                       THEN conjunct1, THEN mp, OF ex]
  from trimmed b v w show ?thesis by simp
qed

text \<open>
  Claim C6 as stated fails for a string of whitespace: the string of one space is not
  empty and scores 0 against the empty string, and trimming makes it the empty
  string, which scores 100 against the empty string.
\<close>

theorem score_trim_blank_counterexample:
  "trim '' '' = [] \<and> score (trim '' '') [] Ratio = 100 \<and> score '' '' [] Ratio = 0"
  by code_simp

text \<open>
  Claim C7. For every string \<open>a\<close> and each of the four algorithms, the score of \<open>a\<close>
  against the empty string is 0 when \<open>a\<close> is not empty, and the score of the empty
  string against itself is 100.
\<close>

theorem score_against_empty_string:
  "(a \<noteq> [] \<longrightarrow> score a [] algorithm = 0) \<and> score [] [] algorithm = 100"
  by (simp add: score_def)

theorem score_against_empty_string_witness:
  "''ab'' \<noteq> [] \<and> score ''ab'' [] Token_Set_Ratio = 0 \<and> '' '' \<noteq> []
   \<and> score '' '' [] Partial_Ratio = 0"
proof -
  have ne: "''ab'' \<noteq> []" by simp
  have ne2: "'' '' \<noteq> []" by simp
  note nonempty = score_against_empty_string [of "''ab''" Token_Set_Ratio, THEN conjunct1, THEN mp, OF ne]
  note blank = score_against_empty_string [of "'' ''" Partial_Ratio, THEN conjunct1, THEN mp, OF ne2]
  from nonempty blank show ?thesis by simp
qed

text \<open>
  Claim C8. For all strings \<open>a\<close> and \<open>b\<close>, the Ratio algorithm is symmetric:
  \<open>score a b Ratio = score b a Ratio\<close>.
\<close>

theorem ratio_is_symmetric: "score a b Ratio = score b a Ratio"
  unfolding score_def Let_def
  using ratio_similarity_sym [of "normalize a" "normalize b"] by auto

end
